theory Spec2Isabelle
  imports Complex_Main "HOL-Library.AList" "HOL-Library.Sublist" "HOL-Library.Word"
begin

section \<open>The document model of the sketch store\<close>

text \<open>
  The types of \<^verbatim>\<open>sketchStore.ts\<close>. A JavaScript \<^verbatim>\<open>number\<close> that is only carried
  through (coordinates, widths) is a \<^typ>\<open>real\<close>; a time stamp read from \<^verbatim>\<open>Date.now()\<close>
  is an \<^typ>\<open>int\<close> (milliseconds). The \<^verbatim>\<open>type\<close> tag of an element is the constructor,
  read back as the string of the source by \<open>el_type\<close>.
\<close>

type_synonym Point = "real \<times> real"

record Position =
  pos_x :: real
  pos_y :: real

datatype CanvasElement =
    StrokeElement (el_id: string) "Point list" string real string (timestamp: int)
  | NoteElement (el_id: string) (note_text: string) Position string string (timestamp: int)

fun el_type :: "CanvasElement \<Rightarrow> string" where
  "el_type (StrokeElement i ps c w u t) = ''stroke''"
| "el_type (NoteElement i txt p c u t) = ''note''"

record Cursor =
  position :: Position
  lastActive :: int

text \<open>
  The \<^verbatim>\<open>cursors\<close> object is an association list with one pair per key, in the order
  of \<^verbatim>\<open>Object.entries\<close>. The source tests \<^verbatim>\<open>doc.canvas\<close>, \<^verbatim>\<open>doc.canvas.elements\<close> and
  \<^verbatim>\<open>doc.canvas.cursors\<close> for absence at run time, so these three are optional here
  (\<open>None\<close> is \<^verbatim>\<open>undefined\<close>).
\<close>

record Canvas =
  elements :: "CanvasElement list option"
  cursors :: "(string \<times> Cursor) list option"
  title :: string

record SketchDoc =
  canvas :: "Canvas option"

definition emptyCanvas :: Canvas where
  "emptyCanvas = \<lparr>elements = Some [], cursors = Some [], title = ''Untitled Sketch''\<rparr>"

definition emptyDoc :: SketchDoc where
  "emptyDoc = \<lparr>canvas = Some emptyCanvas\<rparr>"

text \<open>
  \<^verbatim>\<open>generateId\<close> is \<^verbatim>\<open>Math.random().toString(36).substring(2, 15)\<close>. The random draw
  enters the model as an input, already rendered in base 36 (\<^verbatim>\<open>"0.k3j9..."\<close>);
  \<^verbatim>\<open>substring(2, 15)\<close> keeps the characters at positions 2 to 14.
\<close>

definition generateId :: "string \<Rightarrow> string" where
  "generateId rnd = take 13 (drop 2 rnd)"

section \<open>The store\<close>

text \<open>
  The state of one \<^verbatim>\<open>useSketchStore\<close> instance. \<open>doc\<close> is the state value of the last
  render, which every callback closes over; \<open>currentDoc\<close> is the state cell itself, which
  \<^verbatim>\<open>setDoc\<close> hands to an updater function. \<open>render\<close> brings the two together. \<open>None\<close> is
  an absent document (\<^verbatim>\<open>!doc\<close>). \<open>sent\<close> lists the documents that were saved and sent
  on the socket, oldest first, and \<open>timers\<close> the delays of the pending \<^verbatim>\<open>setTimeout\<close>
  calls of \<^verbatim>\<open>ws.onclose\<close>.
\<close>

datatype ReadyState = CONNECTING | OPEN | CLOSING | CLOSED

record store =
  userId :: string
  doc :: "SketchDoc option"
  currentDoc :: "SketchDoc option"
  readyState :: "ReadyState option"
  connected :: bool
  sent :: "SketchDoc list"
  timers :: "nat list"

definition render :: "store \<Rightarrow> store" where
  "render s = s\<lparr>doc := currentDoc s\<rparr>"

text \<open>The guard \<^verbatim>\<open>if (!doc || !doc.canvas) return\<close>, negated.\<close>

definition initialized :: "SketchDoc option \<Rightarrow> bool" where
  "initialized d = (case d of None \<Rightarrow> False | Some d' \<Rightarrow> canvas d' \<noteq> None)"

text \<open>
  The updater every mutation passes to \<^verbatim>\<open>setDoc\<close>: clone the current document, apply
  the change callback \<open>f\<close> to the clone, send the saved result when the socket is open,
  and return the result. \<^verbatim>\<open>Automerge.clone\<close> of an absent document throws; the
  \<^verbatim>\<open>catch\<close> returns \<^verbatim>\<open>currentDoc\<close>.
\<close>

definition change_and_send :: "(SketchDoc \<Rightarrow> SketchDoc) \<Rightarrow> store \<Rightarrow> store" where
  "change_and_send f s =
     (case currentDoc s of
        None \<Rightarrow> s
      | Some clonedDoc \<Rightarrow>
          (let newDoc = f clonedDoc in
           s\<lparr>currentDoc := Some newDoc,
             sent := (if readyState s = Some OPEN then sent s @ [newDoc] else sent s)\<rparr>))"

subsection \<open>The change callbacks\<close>

text \<open>
  A callback of \<^verbatim>\<open>Automerge.change\<close> is a function from the draft to the changed draft.
  \<^verbatim>\<open>updateCursor\<close>, \<^verbatim>\<open>addStroke\<close> and \<^verbatim>\<open>addNote\<close> begin alike: an absent canvas becomes
  the empty canvas (\<open>canvas_or_empty\<close>), and an absent cursors object or elements list
  becomes an empty one. \<^verbatim>\<open>addStroke\<close> and \<^verbatim>\<open>addNote\<close> then push their element
  (\<open>push_element\<close>); the assignment \<^verbatim>\<open>cursors[userId] = ...\<close> replaces the entry of the
  key where it stands or adds it at the end.
\<close>

definition canvas_or_empty :: "SketchDoc \<Rightarrow> Canvas" where
  "canvas_or_empty d = (case canvas d of None \<Rightarrow> emptyCanvas | Some c \<Rightarrow> c)"

definition updateCursor_change :: "string \<Rightarrow> int \<Rightarrow> real \<Rightarrow> real \<Rightarrow> SketchDoc \<Rightarrow> SketchDoc" where
  "updateCursor_change uid now x y d =
     (let c = canvas_or_empty d;
          cs = (case cursors c of None \<Rightarrow> [] | Some cs' \<Rightarrow> cs')
      in d\<lparr>canvas := Some (c\<lparr>cursors := Some (AList.update uid
              \<lparr>position = \<lparr>pos_x = x, pos_y = y\<rparr>, lastActive = now\<rparr> cs)\<rparr>)\<rparr>)"

definition push_element :: "CanvasElement \<Rightarrow> SketchDoc \<Rightarrow> SketchDoc" where
  "push_element el d =
     (let c = canvas_or_empty d;
          es = (case elements c of None \<Rightarrow> [] | Some es' \<Rightarrow> es')
      in d\<lparr>canvas := Some (c\<lparr>elements := Some (es @ [el])\<rparr>)\<rparr>)"

definition addStroke_change ::
  "string \<Rightarrow> int \<Rightarrow> string \<Rightarrow> Point list \<Rightarrow> string \<Rightarrow> real \<Rightarrow> SketchDoc \<Rightarrow> SketchDoc" where
  "addStroke_change uid now rnd pts col w d =
     push_element (StrokeElement (generateId rnd) pts col w uid now) d"

definition addNote_change ::
  "string \<Rightarrow> int \<Rightarrow> string \<Rightarrow> string \<Rightarrow> Position \<Rightarrow> string \<Rightarrow> SketchDoc \<Rightarrow> SketchDoc" where
  "addNote_change uid now rnd txt pos col d =
     push_element (NoteElement (generateId rnd) txt pos col uid now) d"

text \<open>
  \<^verbatim>\<open>elements.find(el => el.id === id && el.type === 'note')\<close> returns a reference to
  the first element that passes the test, and the two assignments change that element
  in place: the first note with the id gets the text and the time, every other element
  stays, and without a match the list is as before.
\<close>

definition is_note :: "string \<Rightarrow> CanvasElement \<Rightarrow> bool" where
  "is_note i el = (el_id el = i \<and> el_type el = ''note'')"

fun updateNote_elements :: "int \<Rightarrow> string \<Rightarrow> string \<Rightarrow> CanvasElement list \<Rightarrow> CanvasElement list" where
  "updateNote_elements now i txt [] = []"
| "updateNote_elements now i txt (NoteElement j old p c u t # es) =
     (if j = i then NoteElement j txt p c u now # es
      else NoteElement j old p c u t # updateNote_elements now i txt es)"
| "updateNote_elements now i txt (StrokeElement j ps c w u t # es) =
     StrokeElement j ps c w u t # updateNote_elements now i txt es"

definition updateNote_change :: "int \<Rightarrow> string \<Rightarrow> string \<Rightarrow> SketchDoc \<Rightarrow> SketchDoc" where
  "updateNote_change now i txt d =
     (case canvas d of
        None \<Rightarrow> d
      | Some c \<Rightarrow>
          (case elements c of
             None \<Rightarrow> d
           | Some es \<Rightarrow> d\<lparr>canvas := Some (c\<lparr>elements := Some (updateNote_elements now i txt es)\<rparr>)\<rparr>))"

definition updateTitle_change :: "string \<Rightarrow> SketchDoc \<Rightarrow> SketchDoc" where
  "updateTitle_change t d =
     (case canvas d of
        None \<Rightarrow> d\<lparr>canvas := Some \<lparr>elements = Some [], cursors = Some [], title = t\<rparr>\<rparr>
      | Some c \<Rightarrow> d\<lparr>canvas := Some (c\<lparr>title := t\<rparr>)\<rparr>)"

subsection \<open>The mutation operations\<close>

text \<open>
  Each operation takes the readings of \<^verbatim>\<open>Date.now()\<close> and, where an id is generated,
  of \<^verbatim>\<open>Math.random()\<close> as arguments. It tests the document of its closure and then
  calls \<^verbatim>\<open>setDoc\<close> with its updater.
\<close>

definition updateCursor :: "int \<Rightarrow> real \<Rightarrow> real \<Rightarrow> store \<Rightarrow> store" where
  "updateCursor now x y s =
     (if \<not> initialized (doc s) then s
      else change_and_send (updateCursor_change (userId s) now x y) s)"

definition addStroke :: "int \<Rightarrow> string \<Rightarrow> Point list \<Rightarrow> string \<Rightarrow> real \<Rightarrow> store \<Rightarrow> store" where
  "addStroke now rnd pts col w s =
     (if \<not> initialized (doc s) then s
      else change_and_send (addStroke_change (userId s) now rnd pts col w) s)"

definition addNote :: "int \<Rightarrow> string \<Rightarrow> string \<Rightarrow> Position \<Rightarrow> string \<Rightarrow> store \<Rightarrow> store" where
  "addNote now rnd txt pos col s =
     (if \<not> initialized (doc s) then s
      else change_and_send (addNote_change (userId s) now rnd txt pos col) s)"

definition updateNote :: "int \<Rightarrow> string \<Rightarrow> string \<Rightarrow> store \<Rightarrow> store" where
  "updateNote now i txt s =
     (if \<not> initialized (doc s) then s
      else change_and_send (updateNote_change now i txt) s)"

definition updateTitle :: "string \<Rightarrow> store \<Rightarrow> store" where
  "updateTitle t s =
     (if \<not> initialized (doc s) then s
      else change_and_send (updateTitle_change t) s)"

text \<open>The five operations as one type, to speak about any of them.\<close>

datatype mutation =
    UpdateCursor real real
  | AddStroke "Point list" string real
  | AddNote string Position string
  | UpdateNote string string
  | UpdateTitle string

fun perform :: "int \<Rightarrow> string \<Rightarrow> mutation \<Rightarrow> store \<Rightarrow> store" where
  "perform now rnd (UpdateCursor x y) s = updateCursor now x y s"
| "perform now rnd (AddStroke pts col w) s = addStroke now rnd pts col w s"
| "perform now rnd (AddNote txt pos col) s = addNote now rnd txt pos col s"
| "perform now rnd (UpdateNote i txt) s = updateNote now i txt s"
| "perform now rnd (UpdateTitle t) s = updateTitle t s"



text \<open>The elements of a document, empty where the document, canvas or list is absent.\<close>

definition doc_elements :: "SketchDoc option \<Rightarrow> CanvasElement list" where
  "doc_elements d =
     (case d of
        None \<Rightarrow> []
      | Some d' \<Rightarrow>
          (case canvas d' of
             None \<Rightarrow> []
           | Some c \<Rightarrow> (case elements c of None \<Rightarrow> [] | Some es \<Rightarrow> es)))"


section \<open>Receiving from the socket\<close>

text \<open>
  \<^verbatim>\<open>Automerge.load\<close> and \<^verbatim>\<open>Automerge.merge\<close> belong to the Automerge library. They are
  arguments of the handler: \<open>load\<close> decodes a payload or throws; \<open>merge\<close> throws or gives
  the value the source reads as \<^verbatim>\<open>mergeResult[0]\<close>, which the type assertion of the
  source takes for the merged document and which is \<open>None\<close> when the result of the library
  has no such component. A thrown error is \<open>Inl\<close>.
\<close>

datatype error = AutomergeError | TypeError

type_synonym bytes = "8 word list"

text \<open>
  The updater of \<^verbatim>\<open>ws.onmessage\<close>, the same for a Blob and for an ArrayBuffer: one
  \<^verbatim>\<open>try\<close> around clone, load, the repair of an incoming document without canvas, and
  merge; the \<^verbatim>\<open>catch\<close> returns \<^verbatim>\<open>currentDoc\<close>.
\<close>

definition onmessage_updater ::
  "(bytes \<Rightarrow> error + SketchDoc) \<Rightarrow>
   (SketchDoc \<Rightarrow> SketchDoc \<Rightarrow> error + SketchDoc option) \<Rightarrow>
   bytes \<Rightarrow> SketchDoc option \<Rightarrow> SketchDoc option" where
  "onmessage_updater load merge binary currentDoc' =
     (case currentDoc' of
        None \<Rightarrow> currentDoc'
      | Some clonedDoc \<Rightarrow>
          (case load binary of
             Inl e \<Rightarrow> currentDoc'
           | Inr incomingDoc \<Rightarrow>
               (if canvas incomingDoc = None then
                  (let fixedDoc = incomingDoc\<lparr>canvas := Some emptyCanvas\<rparr> in
                   case merge clonedDoc fixedDoc of
                     Inl e \<Rightarrow> currentDoc'
                   | Inr mergeResult0 \<Rightarrow> mergeResult0)
                else
                  (case merge clonedDoc incomingDoc of
                     Inl e \<Rightarrow> currentDoc'
                   | Inr mergeResult0 \<Rightarrow> mergeResult0))))"

definition setDoc :: "(SketchDoc option \<Rightarrow> SketchDoc option) \<Rightarrow> store \<Rightarrow> store" where
  "setDoc f s = s\<lparr>currentDoc := f (currentDoc s)\<rparr>"

text \<open>
  What a message carries. A Blob is read by a \<^verbatim>\<open>FileReader\<close> first: \<open>Blob (Some b)\<close>
  is a read that loads the bytes \<open>b\<close>, \<open>Blob None\<close> a read that fails or loads nothing.
  A string is parsed as JSON and only logged.
\<close>

datatype message_data = Blob "bytes option" | ArrayBuffer bytes | String string | Other

fun onmessage ::
  "(bytes \<Rightarrow> error + SketchDoc) \<Rightarrow>
   (SketchDoc \<Rightarrow> SketchDoc \<Rightarrow> error + SketchDoc option) \<Rightarrow>
   message_data \<Rightarrow> store \<Rightarrow> store" where
  "onmessage load merge (Blob None) s = s"
| "onmessage load merge (Blob (Some binary)) s = setDoc (onmessage_updater load merge binary) s"
| "onmessage load merge (ArrayBuffer binary) s = setDoc (onmessage_updater load merge binary) s"
| "onmessage load merge (String str) s = s"
| "onmessage load merge Other s = s"

section \<open>Closing the socket\<close>

text \<open>
  \<^verbatim>\<open>ws.onclose\<close> clears \<^verbatim>\<open>connected\<close> and, for a close code other than 1000, calls
  \<^verbatim>\<open>setTimeout\<close> once with 5000 milliseconds. The callback of the timer asks for a
  re-render with an updater that returns the document it is given.
\<close>

definition onclose :: "nat \<Rightarrow> store \<Rightarrow> store" where
  "onclose code s =
     (let s' = s\<lparr>connected := False\<rparr> in
      if code \<noteq> 1000 then s'\<lparr>timers := timers s' @ [5000]\<rparr> else s')"

definition reconnect_timeout :: "store \<Rightarrow> store" where
  "reconnect_timeout s = (if readyState s = Some CLOSED then setDoc (\<lambda>d. d) s else s)"

section \<open>Live cursors\<close>

text \<open>
  The two filters of the \<^verbatim>\<open>UserCursors\<close> component, with the reading of \<^verbatim>\<open>Date.now()\<close>
  as the argument \<open>now\<close>. The component renders nothing for a document without canvas,
  and \<^verbatim>\<open>Object.entries\<close> throws on an absent cursors object.
\<close>

definition otherUserCursors :: "string \<Rightarrow> (string \<times> Cursor) list \<Rightarrow> (string \<times> Cursor) list" where
  "otherUserCursors currentUserId cs = filter (\<lambda>(uid, cursor). uid \<noteq> currentUserId) cs"

definition activeCursors :: "int \<Rightarrow> string \<Rightarrow> (string \<times> Cursor) list \<Rightarrow> (string \<times> Cursor) list" where
  "activeCursors now currentUserId cs =
     filter (\<lambda>(uid, cursor). now - lastActive cursor < 10000) (otherUserCursors currentUserId cs)"

definition UserCursors ::
  "string \<Rightarrow> int \<Rightarrow> SketchDoc option \<Rightarrow> error + (string \<times> Cursor) list option" where
  "UserCursors currentUserId now d =
     (case d of
        None \<Rightarrow> Inr None
      | Some d' \<Rightarrow>
          (case canvas d' of
             None \<Rightarrow> Inr None
           | Some c \<Rightarrow>
               (case cursors c of
                  None \<Rightarrow> Inl TypeError
                | Some cs \<Rightarrow> Inr (Some (activeCursors now currentUserId cs)))))"

section \<open>Initialization, reset and histories\<close>

text \<open>
  \<^verbatim>\<open>initializeDocument\<close> tries \<^verbatim>\<open>Automerge.from(emptyDoc)\<close>, then a change on a fresh
  document that assigns the canvas, then a bare \<^verbatim>\<open>Automerge.init()\<close>, each in the \<^verbatim>\<open>catch\<close>
  of the one before. Which of the three calls of the library returns is an input: the
  first, the second, the third, or none (the error of the last call leaves the
  function).
\<close>

datatype creation = FromStructure | ManualCreation | LastResort | AllThrow

definition initializeDocument :: "creation \<Rightarrow> error + SketchDoc" where
  "initializeDocument c =
     (case c of
        FromStructure \<Rightarrow> Inr emptyDoc
      | ManualCreation \<Rightarrow>
          Inr \<lparr>canvas = Some \<lparr>elements = Some [], cursors = Some [], title = ''Untitled Sketch''\<rparr>\<rparr>
      | LastResort \<Rightarrow> Inr \<lparr>canvas = None\<rparr>
      | AllThrow \<Rightarrow> Inl AutomergeError)"

text \<open>
  The two other state cells of the hook that initialization writes, beside the store:
  the count of repair attempts and the error shown to the user (its text is a fixed
  prefix and the message of the error caught).
\<close>

datatype init_error = FailedToInitialize error | FailedToReset error

record hook =
  store_of :: store
  initializationAttempts :: nat
  initializationError :: "init_error option"

text \<open>
  \<^verbatim>\<open>resetDocument\<close> hands the new document to \<^verbatim>\<open>setDoc\<close>, clears the count and the error
  and returns \<^verbatim>\<open>true\<close>; when \<^verbatim>\<open>initializeDocument\<close> throws it records the error and returns
  \<^verbatim>\<open>false\<close>.
\<close>

definition resetDocument :: "creation \<Rightarrow> hook \<Rightarrow> hook \<times> bool" where
  "resetDocument c h =
     (case initializeDocument c of
        Inr newDoc \<Rightarrow>
          (h\<lparr>store_of := (store_of h)\<lparr>currentDoc := Some newDoc\<rparr>,
             initializationAttempts := 0, initializationError := None\<rparr>, True)
      | Inl e \<Rightarrow> (h\<lparr>initializationError := Some (FailedToReset e)\<rparr>, False))"

text \<open>
  The effect that repairs the document after a render (\<^verbatim>\<open>Document not properly
  initialized\<close>): when the rendered document is absent or has no canvas and fewer than
  three attempts were made, it counts one attempt and hands \<^verbatim>\<open>setDoc\<close> a fresh document
  with the empty canvas. \<open>thrown\<close> is the error of the library call that builds that
  document, if it throws.
\<close>

definition ensure_initialized :: "error option \<Rightarrow> hook \<Rightarrow> hook" where
  "ensure_initialized thrown h =
     (if \<not> initialized (doc (store_of h)) \<and> initializationAttempts h < 3 then
        (let h' = h\<lparr>initializationAttempts := initializationAttempts h + 1\<rparr> in
         case thrown of
           None \<Rightarrow>
             h'\<lparr>store_of := (store_of h')\<lparr>currentDoc := Some
                   \<lparr>canvas = Some \<lparr>elements = Some [], cursors = Some [],
                                   title = ''Untitled Sketch''\<rparr>\<rparr>\<rparr>,
                initializationError := None\<rparr>
         | Some e \<Rightarrow> h'\<lparr>initializationError := Some (FailedToInitialize e)\<rparr>)
      else h)"

text \<open>
  A history of one hook. Its events are all the places of the source that call
  \<^verbatim>\<open>setDoc\<close> (the five operations, \<^verbatim>\<open>ws.onmessage\<close>, the timer of \<^verbatim>\<open>ws.onclose\<close>,
  \<^verbatim>\<open>resetDocument\<close>, the repairing effect), the re-render, and \<^verbatim>\<open>ws.onclose\<close>. A call
  carries its clock reading and its random draw; \<open>load\<close> and \<open>merge\<close> are the library
  functions of the receiving handler.
\<close>

datatype event =
    Call int string mutation
  | Rerender
  | Receive message_data
  | Reset creation
  | Repair "error option"
  | Close nat
  | Timeout

definition on_store :: "(store \<Rightarrow> store) \<Rightarrow> hook \<Rightarrow> hook" where
  "on_store f h = h\<lparr>store_of := f (store_of h)\<rparr>"

fun step ::
  "(bytes \<Rightarrow> error + SketchDoc) \<Rightarrow> (SketchDoc \<Rightarrow> SketchDoc \<Rightarrow> error + SketchDoc option) \<Rightarrow>
   event \<Rightarrow> hook \<Rightarrow> hook" where
  "step load merge (Call now rnd m) h = on_store (perform now rnd m) h"
| "step load merge Rerender h = on_store render h"
| "step load merge (Receive data) h = on_store (onmessage load merge data) h"
| "step load merge (Reset c) h = fst (resetDocument c h)"
| "step load merge (Repair thrown) h = ensure_initialized thrown h"
| "step load merge (Close code) h = on_store (onclose code) h"
| "step load merge Timeout h = on_store reconnect_timeout h"





section \<open>Example stores\<close>

definition degraded_store :: store where
  "degraded_store =
     \<lparr>userId = ''u1'', doc = Some \<lparr>canvas = None\<rparr>, currentDoc = Some \<lparr>canvas = None\<rparr>,
      readyState = Some OPEN, connected = True, sent = [], timers = []\<rparr>"


definition presence_store :: store where
  "presence_store =
     \<lparr>userId = ''me'',
      doc = Some \<lparr>canvas = Some \<lparr>elements = Some [], cursors = Some
        [(''me'', \<lparr>position = \<lparr>pos_x = 0, pos_y = 0\<rparr>, lastActive = 100000\<rparr>),
         (''a'', \<lparr>position = \<lparr>pos_x = 1, pos_y = 1\<rparr>, lastActive = 89000\<rparr>),
         (''b'', \<lparr>position = \<lparr>pos_x = 2, pos_y = 2\<rparr>, lastActive = 91000\<rparr>)],
        title = ''Untitled Sketch''\<rparr>\<rparr>,
      currentDoc = Some \<lparr>canvas = Some \<lparr>elements = Some [], cursors = Some
        [(''me'', \<lparr>position = \<lparr>pos_x = 0, pos_y = 0\<rparr>, lastActive = 100000\<rparr>),
         (''a'', \<lparr>position = \<lparr>pos_x = 1, pos_y = 1\<rparr>, lastActive = 89000\<rparr>),
         (''b'', \<lparr>position = \<lparr>pos_x = 2, pos_y = 2\<rparr>, lastActive = 91000\<rparr>)],
        title = ''Untitled Sketch''\<rparr>\<rparr>,
      readyState = Some OPEN, connected = True, sent = [], timers = []\<rparr>"

definition stale_store :: store where
  "stale_store =
     \<lparr>userId = ''u1'', doc = Some emptyDoc, currentDoc = Some \<lparr>canvas = None\<rparr>,
      readyState = Some OPEN, connected = True, sent = [], timers = []\<rparr>"

definition notes_store :: store where
  "notes_store =
     \<lparr>userId = ''u1'',
      doc = Some \<lparr>canvas = Some \<lparr>elements = Some
        [StrokeElement ''n1'' [(0, 0)] ''#000000'' 3 ''u2'' 10,
         NoteElement ''n1'' ''old'' \<lparr>pos_x = 5, pos_y = 6\<rparr> ''#ffff88'' ''u2'' 11,
         NoteElement ''n2'' ''other'' \<lparr>pos_x = 7, pos_y = 8\<rparr> ''#ff7eb9'' ''u1'' 12],
        cursors = Some [], title = ''Untitled Sketch''\<rparr>\<rparr>,
      currentDoc = Some \<lparr>canvas = Some \<lparr>elements = Some
        [StrokeElement ''n1'' [(0, 0)] ''#000000'' 3 ''u2'' 10,
         NoteElement ''n1'' ''old'' \<lparr>pos_x = 5, pos_y = 6\<rparr> ''#ffff88'' ''u2'' 11,
         NoteElement ''n2'' ''other'' \<lparr>pos_x = 7, pos_y = 8\<rparr> ''#ff7eb9'' ''u1'' 12],
        cursors = Some [], title = ''Untitled Sketch''\<rparr>\<rparr>,
      readyState = None, connected = False, sent = [], timers = []\<rparr>"



definition absent_store :: store where
  "absent_store =
     \<lparr>userId = ''u1'', doc = None, currentDoc = None,
      readyState = Some OPEN, connected = True, sent = [], timers = []\<rparr>"

text \<open>
  Stand-ins for the two library functions in the examples: a load that throws on the
  empty payload, decodes the payload \<open>[0]\<close> to a document without canvas and every other
  payload to a document with an empty canvas titled \<^verbatim>\<open>Remote\<close>; and a merge that throws
  on a local document without canvas and otherwise lets the incoming document win.
\<close>

definition example_load :: "bytes \<Rightarrow> error + SketchDoc" where
  "example_load b =
     (if b = [] then Inl AutomergeError
      else if b = [0] then Inr \<lparr>canvas = None\<rparr>
      else Inr \<lparr>canvas = Some (emptyCanvas\<lparr>title := ''Remote''\<rparr>)\<rparr>)"

definition example_merge :: "SketchDoc \<Rightarrow> SketchDoc \<Rightarrow> error + SketchDoc option" where
  "example_merge a b = (if canvas a = None then Inl AutomergeError else Inr (Some b))"

section \<open>Auxiliary facts\<close>

lemma perform_guard: "\<not> initialized (doc s) \<Longrightarrow> perform now rnd m s = s"
  by (cases m) (simp_all add: updateCursor_def addStroke_def addNote_def updateNote_def
      updateTitle_def)

lemma change_and_send_Some:
  "currentDoc s = Some d \<Longrightarrow>
   change_and_send f s =
     s\<lparr>currentDoc := Some (f d),
       sent := (if readyState s = Some OPEN then sent s @ [f d] else sent s)\<rparr>"
  by (simp add: change_and_send_def Let_def)

lemma currentDoc_change_and_send:
  "currentDoc (change_and_send f s) = map_option f (currentDoc s)"
  by (simp add: change_and_send_def Let_def split: option.splits)

lemma doc_change_and_send: "doc (change_and_send f s) = doc s"
  by (simp add: change_and_send_def Let_def split: option.splits)

lemma filter_key_absent: "k \<notin> fst ` set al \<Longrightarrow> filter (\<lambda>p. fst p = k) al = []"
  by (induction al) auto

lemma one_entry_update:
  "distinct (map fst al) \<Longrightarrow> length (filter (\<lambda>p. fst p = k) (AList.update k v al)) = 1"
  by (induction al) (auto simp: filter_key_absent)

lemma updateNote_elements_no_match:
  "\<forall>el\<in>set es. \<not> is_note i el \<Longrightarrow> updateNote_elements now i txt es = es"
  by (induction now i "txt" es rule: updateNote_elements.induct) (auto simp: is_note_def)

lemma updateNote_elements_match:
  "\<exists>el\<in>set es. is_note i el \<Longrightarrow>
   \<exists>pre old p c u t post.
      es = pre @ NoteElement i old p c u t # post \<and> (\<forall>el\<in>set pre. \<not> is_note i el) \<and>
      (\<forall>now. updateNote_elements now i txt es = pre @ NoteElement i txt p c u now # post)"
proof (induction es)
  case Nil
  then show ?case by simp
next
  case (Cons e es)
  show ?case
  proof (cases "is_note i e")
    case True
    then obtain old p c u t where e: "e = NoteElement i old p c u t"
      by (cases e) (auto simp: is_note_def)
    have "e # es = [] @ NoteElement i old p c u t # es \<and> (\<forall>el\<in>set []. \<not> is_note i el) \<and>
      (\<forall>now. updateNote_elements now i txt (e # es) = [] @ NoteElement i txt p c u now # es)"
      using e by simp
    then show ?thesis by blast
  next
    case False
    with Cons.prems have "\<exists>el\<in>set es. is_note i el" by auto
    from Cons.IH [OF this] obtain pre old p c u t post where
      es: "es = pre @ NoteElement i old p c u t # post" and
      pre: "\<forall>el\<in>set pre. \<not> is_note i el" and
      upd: "\<forall>now. updateNote_elements now i txt es = pre @ NoteElement i txt p c u now # post"
      by blast
    have step: "\<forall>now. updateNote_elements now i txt (e # es) = e # updateNote_elements now i txt es"
      using False by (cases e) (auto simp: is_note_def)
    have "e # es = (e # pre) @ NoteElement i old p c u t # post \<and>
      (\<forall>el\<in>set (e # pre). \<not> is_note i el) \<and>
      (\<forall>now. updateNote_elements now i txt (e # es) = (e # pre) @ NoteElement i txt p c u now # post)"
      using es pre upd step False by simp
    then show ?thesis by blast
  qed
qed

lemma updateNote_elements_twice:
  "updateNote_elements now' i txt (updateNote_elements now i txt es) =
   updateNote_elements now' i txt es"
  by (induction now i "txt" es rule: updateNote_elements.induct) auto


lemma doc_elements_push:
  "doc_elements (Some (push_element el d)) = doc_elements (Some d) @ [el]"
  by (simp add: doc_elements_def push_element_def canvas_or_empty_def emptyCanvas_def Let_def
      split: option.splits)

lemma doc_elements_updateCursor:
  "doc_elements (Some (updateCursor_change uid now x y d)) = doc_elements (Some d)"
  by (simp add: doc_elements_def updateCursor_change_def canvas_or_empty_def emptyCanvas_def
      Let_def split: option.splits)

lemma doc_elements_updateTitle:
  "doc_elements (Some (updateTitle_change t d)) = doc_elements (Some d)"
  by (simp add: doc_elements_def updateTitle_change_def split: option.splits)

lemma doc_elements_updateNote:
  "doc_elements (Some (updateNote_change now i txt d)) =
   updateNote_elements now i txt (doc_elements (Some d))"
  by (simp add: doc_elements_def updateNote_change_def split: option.splits)

lemma doc_elements_None: "doc_elements None = []"
  by (simp add: doc_elements_def)

lemma perform_elements:
  "doc_elements (currentDoc (perform now rnd m s)) = doc_elements (currentDoc s)
   \<or> (\<exists>e. doc_elements (currentDoc (perform now rnd m s)) = doc_elements (currentDoc s) @ [e]
          \<and> el_id e = generateId rnd)
   \<or> (\<exists>i txt. doc_elements (currentDoc (perform now rnd m s)) =
          updateNote_elements now i txt (doc_elements (currentDoc s)))"
proof (cases "initialized (doc s) \<and> currentDoc s \<noteq> None")
  case False
  then have "perform now rnd m s = s"
    by (cases m) (auto simp: updateCursor_def addStroke_def addNote_def updateNote_def
        updateTitle_def change_and_send_def)
  then show ?thesis by simp
next
  case True
  then obtain d where d: "currentDoc s = Some d" and i: "initialized (doc s)" by auto
  show ?thesis
  proof (cases m)
    case (UpdateCursor x y)
    then show ?thesis using d i
      by (simp add: updateCursor_def currentDoc_change_and_send doc_elements_updateCursor)
  next
    case (AddStroke pts col w)
    then show ?thesis using d i
      by (simp add: addStroke_def currentDoc_change_and_send addStroke_change_def
          doc_elements_push)
  next
    case (AddNote tx pos col)
    then show ?thesis using d i
      by (simp add: addNote_def currentDoc_change_and_send addNote_change_def
          doc_elements_push)
  next
    case (UpdateNote i2 tx)
    then show ?thesis using d i
      by (auto simp add: updateNote_def currentDoc_change_and_send doc_elements_updateNote)
  next
    case (UpdateTitle t)
    then show ?thesis using d i
      by (simp add: updateTitle_def currentDoc_change_and_send doc_elements_updateTitle)
  qed
qed


lemma el_id_updateNote_elements:
  "map el_id (updateNote_elements now i txt es) = map el_id es"
  by (induction now i "txt" es rule: updateNote_elements.induct) auto

lemma perform_distinct_ids:
  assumes "distinct (map el_id (doc_elements (currentDoc s)))"
    and "generateId rnd \<notin> set (map el_id (doc_elements (currentDoc s)))"
  shows "distinct (map el_id (doc_elements (currentDoc (perform now rnd m s))))"
  using perform_elements [of now rnd m s] assms
  by (auto simp: el_id_updateNote_elements)


lemma currentDoc_updateNote:
  "currentDoc (updateNote now i tx s) =
     (if initialized (doc s) then map_option (updateNote_change now i tx) (currentDoc s)
      else currentDoc s)"
  by (simp add: updateNote_def currentDoc_change_and_send)

lemma doc_updateNote: "doc (updateNote now i tx s) = doc s"
  by (simp add: updateNote_def doc_change_and_send)

lemma updateNote_change_elements:
  "canvas d = Some c \<Longrightarrow> elements c = Some es \<Longrightarrow>
   updateNote_change now i tx d = d\<lparr>canvas := Some (c\<lparr>elements := Some (updateNote_elements now i tx es)\<rparr>)\<rparr>"
  by (simp add: updateNote_change_def)

lemma updateNote_change_twice:
  "updateNote_change now' i tx (updateNote_change now i tx d) = updateNote_change now' i tx d"
  by (simp add: updateNote_change_def updateNote_elements_twice split: option.splits)

lemma updateNote_change_no_match:
  "\<forall>el\<in>set (doc_elements (Some d)). \<not> is_note i el \<Longrightarrow> updateNote_change now i tx d = d"
  by (simp add: updateNote_change_def doc_elements_def updateNote_elements_no_match
      split: option.splits)


lemma onmessage_merge_failure:
  assumes "\<forall>a b. merge a b = Inl e"
  shows "onmessage load merge (ArrayBuffer binary) s = s"
  using assms
  by (simp add: setDoc_def onmessage_updater_def Let_def split: option.splits sum.splits)

lemma onmessage_repairs_missing_canvas:
  assumes "currentDoc s = Some d" and "load binary = Inr incomingDoc"
    and "canvas incomingDoc = None"
    and "merge d (incomingDoc\<lparr>canvas := Some emptyCanvas\<rparr>) = Inr merged"
  shows "currentDoc (onmessage load merge (ArrayBuffer binary) s) = merged"
  using assms by (simp add: setDoc_def onmessage_updater_def Let_def)


lemma onmessage_binary:
  "data = ArrayBuffer binary \<or> data = Blob (Some binary) \<Longrightarrow>
   onmessage load merge data s = setDoc (onmessage_updater load merge binary) s"
  by auto

lemma setDoc_same: "f (currentDoc s) = currentDoc s \<Longrightarrow> setDoc f s = s"
  by (simp add: setDoc_def)

lemma onmessage_updater_load_throws:
  "load binary = Inl e \<Longrightarrow> onmessage_updater load merge binary cd = cd"
  by (simp add: onmessage_updater_def split: option.splits)

lemma onmessage_updater_absent: "onmessage_updater load merge binary None = None"
  by (simp add: onmessage_updater_def)

lemma onmessage_updater_loaded:
  "load binary = Inr incomingDoc \<Longrightarrow>
   onmessage_updater load merge binary (Some d) =
     (case merge d (if canvas incomingDoc = None then incomingDoc\<lparr>canvas := Some emptyCanvas\<rparr>
                    else incomingDoc) of
        Inl e \<Rightarrow> Some d
      | Inr r \<Rightarrow> r)"
  by (simp add: onmessage_updater_def Let_def)











section \<open>Merge on receive\<close>

text \<open>
  C2, as the code has it. The one test of structure in the handler is that of the canvas
  of the loaded document, and a payload that fails it is not discarded: the handler adds
  the empty canvas to the incoming document and merges. With a payload that loads to a
  document without canvas, and a merge in which the incoming document wins, the document
  of the store is replaced. This refutes the claim as stated.
\<close>

theorem merge_on_receive_counterexample:
  "example_load [0] = Inr \<lparr>canvas = None\<rparr>
   \<and> currentDoc (onmessage example_load example_merge (ArrayBuffer [0]) notes_store) =
       Some \<lparr>canvas = Some emptyCanvas\<rparr>
   \<and> currentDoc (onmessage example_load example_merge (ArrayBuffer [0]) notes_store) \<noteq>
       currentDoc notes_store"
  by (simp add: example_load_def example_merge_def setDoc_def onmessage_updater_def Let_def
      notes_store_def emptyCanvas_def)

text \<open>
  C2, amended. A payload on which \<^verbatim>\<open>Automerge.load\<close> throws (bytes that do not
  deserialize) leaves the store as it was, for an ArrayBuffer and for a Blob alike, and so
  does a merge that throws and a receive on an absent document; nothing of the payload
  is applied and no error leaves the handler. A payload that loads is not rejected for
  its structure: a document without canvas is given the empty canvas, and the document
  of the store becomes the value the merge returns. A Blob that cannot be read, a string
  and any other data leave the store as it was.
\<close>

theorem onmessage_keeps_or_merges:
  "(\<forall>data \<in> {ArrayBuffer binary, Blob (Some binary)}.
      (\<forall>e. load binary = Inl e \<longrightarrow> onmessage load merge data s = s)
    \<and> (currentDoc s = None \<longrightarrow> onmessage load merge data s = s)
    \<and> (\<forall>d incomingDoc e.
          currentDoc s = Some d \<and> load binary = Inr incomingDoc \<and>
          merge d (if canvas incomingDoc = None then incomingDoc\<lparr>canvas := Some emptyCanvas\<rparr>
                   else incomingDoc) = Inl e
          \<longrightarrow> onmessage load merge data s = s)
    \<and> (\<forall>d incomingDoc mergeResult0.
          currentDoc s = Some d \<and> load binary = Inr incomingDoc \<and>
          merge d (if canvas incomingDoc = None then incomingDoc\<lparr>canvas := Some emptyCanvas\<rparr>
                   else incomingDoc) = Inr mergeResult0
          \<longrightarrow> onmessage load merge data s = s\<lparr>currentDoc := mergeResult0\<rparr>))
   \<and> onmessage load merge (Blob None) s = s
   \<and> onmessage load merge (String str) s = s
   \<and> onmessage load merge Other s = s"
  (is "(\<forall>data \<in> ?S. ?P data) \<and> ?Q")
proof (rule conjI)
  show "\<forall>data \<in> ?S. ?P data"
  proof
    fix data
    assume "data \<in> ?S"
    then have data: "data = ArrayBuffer binary \<or> data = Blob (Some binary)"
      by simp
    note om = onmessage_binary [OF data, of load merge s]
    have a: "\<forall>e. load binary = Inl e \<longrightarrow> onmessage load merge data s = s"
      by (simp add: om setDoc_same onmessage_updater_load_throws)
    have b: "currentDoc s = None \<longrightarrow> onmessage load merge data s = s"
      by (simp add: om setDoc_same onmessage_updater_absent)
    have c: "\<forall>d incomingDoc e.
          currentDoc s = Some d \<and> load binary = Inr incomingDoc \<and>
          merge d (if canvas incomingDoc = None then incomingDoc\<lparr>canvas := Some emptyCanvas\<rparr>
                   else incomingDoc) = Inl e
          \<longrightarrow> onmessage load merge data s = s"
      by (simp add: om setDoc_same onmessage_updater_loaded)
    have d: "\<forall>d incomingDoc mergeResult0.
          currentDoc s = Some d \<and> load binary = Inr incomingDoc \<and>
          merge d (if canvas incomingDoc = None then incomingDoc\<lparr>canvas := Some emptyCanvas\<rparr>
                   else incomingDoc) = Inr mergeResult0
          \<longrightarrow> onmessage load merge data s = s\<lparr>currentDoc := mergeResult0\<rparr>"
      by (simp add: om setDoc_def onmessage_updater_loaded)
    from a b c d show "?P data" by (intro conjI)
  qed
  show ?Q by simp
qed

theorem onmessage_keeps_or_merges_witness:
  "onmessage example_load example_merge (ArrayBuffer []) notes_store = notes_store
   \<and> onmessage example_load example_merge (Blob (Some [7])) degraded_store = degraded_store
   \<and> currentDoc (onmessage example_load example_merge (Blob (Some [0])) notes_store) =
       Some \<lparr>canvas = Some emptyCanvas\<rparr>
   \<and> currentDoc (onmessage example_load example_merge (ArrayBuffer [7]) notes_store) =
       Some \<lparr>canvas = Some (emptyCanvas\<lparr>title := ''Remote''\<rparr>)\<rparr>
   \<and> onmessage example_load example_merge (ArrayBuffer [7]) absent_store = absent_store"
proof -
  have l0: "example_load [] = Inl AutomergeError"
    and l1: "example_load [0] = Inr \<lparr>canvas = None\<rparr>"
    and l7: "example_load [7] = Inr \<lparr>canvas = Some (emptyCanvas\<lparr>title := ''Remote''\<rparr>)\<rparr>"
    by (simp_all add: example_load_def)
  obtain d where d: "currentDoc notes_store = Some d" and dc: "canvas d \<noteq> None"
    by (simp add: notes_store_def)
  have g: "currentDoc degraded_store = Some \<lparr>canvas = None\<rparr>"
    by (simp add: degraded_store_def)
  have m1: "example_merge d \<lparr>canvas = Some emptyCanvas\<rparr> = Inr (Some \<lparr>canvas = Some emptyCanvas\<rparr>)"
    and m7: "example_merge d \<lparr>canvas = Some (emptyCanvas\<lparr>title := ''Remote''\<rparr>)\<rparr> =
      Inr (Some \<lparr>canvas = Some (emptyCanvas\<lparr>title := ''Remote''\<rparr>)\<rparr>)"
    and mg: "example_merge \<lparr>canvas = None\<rparr> \<lparr>canvas = Some (emptyCanvas\<lparr>title := ''Remote''\<rparr>)\<rparr> =
      Inl AutomergeError"
    using dc by (simp_all add: example_merge_def)
  have w0: "onmessage example_load example_merge (ArrayBuffer []) notes_store = notes_store"
    using onmessage_keeps_or_merges [where binary = "[]" and load = example_load
        and merge = example_merge and s = notes_store] l0
    by simp
  have wg: "onmessage example_load example_merge (Blob (Some [7])) degraded_store = degraded_store"
    using onmessage_keeps_or_merges [where binary = "[7]" and load = example_load
        and merge = example_merge and s = degraded_store] l7 g mg
    by simp
  have w1: "onmessage example_load example_merge (Blob (Some [0])) notes_store =
      notes_store\<lparr>currentDoc := Some \<lparr>canvas = Some emptyCanvas\<rparr>\<rparr>"
    using onmessage_keeps_or_merges [where binary = "[0]" and load = example_load
        and merge = example_merge and s = notes_store] l1 d m1
    by simp
  have w7: "onmessage example_load example_merge (ArrayBuffer [7]) notes_store =
      notes_store\<lparr>currentDoc := Some \<lparr>canvas = Some (emptyCanvas\<lparr>title := ''Remote''\<rparr>)\<rparr>\<rparr>"
    using onmessage_keeps_or_merges [where binary = "[7]" and load = example_load
        and merge = example_merge and s = notes_store] l7 d m7
    by simp
  have na: "currentDoc absent_store = None"
    by (simp add: absent_store_def)
  have wa: "onmessage example_load example_merge (ArrayBuffer [7]) absent_store = absent_store"
    using onmessage_keeps_or_merges [where binary = "[7]" and load = example_load
        and merge = example_merge and s = absent_store] na
    by simp
  show ?thesis
    unfolding w0 wg w1 w7 wa by simp
qed

section \<open>Mutation operations\<close>

text \<open>
  C3, as the code has it. On a store whose document has no canvas, \<open>addStroke\<close> stops at
  its guard: the document is left without canvas, the stroke is discarded and nothing is
  sent. This refutes the claim as stated.
\<close>

theorem repair_before_mutate_counterexample:
  "currentDoc (addStroke 5 ''0.i'' [(1, 2)] ''#000000'' 3 degraded_store) = Some \<lparr>canvas = None\<rparr>
   \<and> sent (addStroke 5 ''0.i'' [(1, 2)] ''#000000'' 3 degraded_store) = []"
  by (simp add: addStroke_def degraded_store_def initialized_def)

text \<open>
  C3, amended. When the guard of a mutation operation sees a document without canvas,
  the operation changes nothing. A document without canvas is repaired only past the
  guard, that is, when the document of the last render had a canvas and the document
  handed to the updater has none: then \<open>addStroke\<close>, \<open>addNote\<close> and \<open>updateCursor\<close> put
  the change into the empty canvas (no elements, no cursors, title
  \<^verbatim>\<open>Untitled Sketch\<close>), \<open>updateTitle\<close> installs the empty canvas with the new title, and
  \<open>updateNote\<close> leaves the document without canvas.
\<close>

theorem repair_only_past_the_guard:
  "(\<not> initialized (doc s) \<longrightarrow> perform now rnd m s = s)
   \<and> (initialized (doc s) \<and> currentDoc s = Some d \<and> canvas d = None \<longrightarrow>
        currentDoc (addStroke now rnd pts col w s) =
          Some (d\<lparr>canvas := Some (emptyCanvas\<lparr>elements :=
            Some [StrokeElement (generateId rnd) pts col w (userId s) now]\<rparr>)\<rparr>)
      \<and> currentDoc (addNote now rnd tx pos col s) =
          Some (d\<lparr>canvas := Some (emptyCanvas\<lparr>elements :=
            Some [NoteElement (generateId rnd) tx pos col (userId s) now]\<rparr>)\<rparr>)
      \<and> currentDoc (updateCursor now x y s) =
          Some (d\<lparr>canvas := Some (emptyCanvas\<lparr>cursors :=
            Some [(userId s, \<lparr>position = \<lparr>pos_x = x, pos_y = y\<rparr>, lastActive = now\<rparr>)]\<rparr>)\<rparr>)
      \<and> currentDoc (updateTitle ti s) = Some (d\<lparr>canvas := Some (emptyCanvas\<lparr>title := ti\<rparr>)\<rparr>)
      \<and> currentDoc (updateNote now i tx s) = Some d)"
  by (simp add: perform_guard addStroke_def addNote_def updateCursor_def updateTitle_def
      updateNote_def currentDoc_change_and_send addStroke_change_def addNote_change_def
      push_element_def updateCursor_change_def updateTitle_change_def updateNote_change_def
      canvas_or_empty_def emptyCanvas_def Let_def)

theorem repair_only_past_the_guard_witness:
  "perform 5 ''0.i'' (AddStroke [(1, 2)] ''#000000'' 3) degraded_store = degraded_store
   \<and> currentDoc (addStroke 5 ''0.i'' [(1, 2)] ''#000000'' 3 stale_store) =
       Some \<lparr>canvas = Some \<lparr>elements = Some [StrokeElement ''i'' [(1, 2)] ''#000000'' 3 ''u1'' 5],
         cursors = Some [], title = ''Untitled Sketch''\<rparr>\<rparr>
   \<and> currentDoc (updateNote 5 ''n1'' ''x'' stale_store) = Some \<lparr>canvas = None\<rparr>"
proof -
  have a: "\<not> initialized (doc degraded_store)"
    by (simp add: degraded_store_def initialized_def)
  have b: "initialized (doc stale_store) \<and> currentDoc stale_store = Some \<lparr>canvas = None\<rparr>
      \<and> canvas \<lparr>canvas = None\<rparr> = None"
    by (simp add: stale_store_def initialized_def emptyDoc_def)
  show ?thesis
    using a b
      repair_only_past_the_guard [where s = degraded_store and now = 5 and rnd = "''0.i''"
        and m = "AddStroke [(1, 2)] ''#000000'' 3"]
      repair_only_past_the_guard [where s = stale_store and d = "\<lparr>canvas = None\<rparr>"
        and now = 5 and rnd = "''0.i''" and pts = "[(1, 2)]" and col = "''#000000''" and w = 3
        and i = "''n1''" and tx = "''x''"]
    by (simp add: emptyCanvas_def generateId_def stale_store_def)
qed

text \<open>
  C4. In a document with a canvas, \<open>updateNote\<close> with id \<open>i\<close> and text \<open>tx\<close>: when the
  elements hold a note with that id, the first such note gets the text \<open>tx\<close> and the
  time of the call, and every other element, before and after it, stays; a second call
  with the same text leaves the text \<open>tx\<close> (the time is that of the second call). When
  no element is a note with that id (no such id, or the id belongs to a stroke only, or
  the elements are absent), the document is the same after one call and after two, and
  the operation has a result all the same.
\<close>

theorem updateNote_sets_text_of_note:
  assumes "initialized (doc s)" and "currentDoc s = Some d" and "canvas d = Some c"
  shows "(\<forall>es. elements c = Some es \<and> (\<exists>el\<in>set es. is_note i el) \<longrightarrow>
            (\<exists>pre old p col u t post.
               es = pre @ NoteElement i old p col u t # post \<and>
               (\<forall>el\<in>set pre. \<not> is_note i el) \<and>
               currentDoc (updateNote now i tx s) =
                 Some (d\<lparr>canvas := Some (c\<lparr>elements :=
                   Some (pre @ NoteElement i tx p col u now # post)\<rparr>)\<rparr>) \<and>
               currentDoc (updateNote now' i tx (updateNote now i tx s)) =
                 Some (d\<lparr>canvas := Some (c\<lparr>elements :=
                   Some (pre @ NoteElement i tx p col u now' # post)\<rparr>)\<rparr>)))
       \<and> ((\<forall>el\<in>set (doc_elements (Some d)). \<not> is_note i el) \<longrightarrow>
            currentDoc (updateNote now i tx s) = currentDoc s \<and>
            currentDoc (updateNote now' i tx (updateNote now i tx s)) = currentDoc s)"
proof -
  have once: "currentDoc (updateNote t i tx s) = Some (updateNote_change t i tx d)" for t
    using assms by (simp add: currentDoc_updateNote)
  have twice: "currentDoc (updateNote now' i tx (updateNote now i tx s)) =
      Some (updateNote_change now' i tx d)"
    using assms
    by (simp add: currentDoc_updateNote doc_updateNote updateNote_change_twice)
  have found: "\<exists>pre old p col u t post.
        es = pre @ NoteElement i old p col u t # post \<and>
        (\<forall>el\<in>set pre. \<not> is_note i el) \<and>
        currentDoc (updateNote now i tx s) =
          Some (d\<lparr>canvas := Some (c\<lparr>elements :=
            Some (pre @ NoteElement i tx p col u now # post)\<rparr>)\<rparr>) \<and>
        currentDoc (updateNote now' i tx (updateNote now i tx s)) =
          Some (d\<lparr>canvas := Some (c\<lparr>elements :=
            Some (pre @ NoteElement i tx p col u now' # post)\<rparr>)\<rparr>)"
    if es: "elements c = Some es" and ex: "\<exists>el\<in>set es. is_note i el" for es
  proof -
    from updateNote_elements_match [OF ex, of tx]
    obtain pre old p col u t post where
      split: "es = pre @ NoteElement i old p col u t # post" and
      pre: "\<forall>el\<in>set pre. \<not> is_note i el" and
      upd: "\<forall>t'. updateNote_elements t' i tx es = pre @ NoteElement i tx p col u t' # post"
      by blast
    have ch: "updateNote_change t' i tx d =
        d\<lparr>canvas := Some (c\<lparr>elements := Some (pre @ NoteElement i tx p col u t' # post)\<rparr>)\<rparr>" for t'
      using updateNote_change_elements [OF assms(3) es, of t' i tx] upd by simp
    have c1: "currentDoc (updateNote now i tx s) =
          Some (d\<lparr>canvas := Some (c\<lparr>elements :=
            Some (pre @ NoteElement i tx p col u now # post)\<rparr>)\<rparr>)"
      using once [of now] ch [of now] by simp
    have c2: "currentDoc (updateNote now' i tx (updateNote now i tx s)) =
          Some (d\<lparr>canvas := Some (c\<lparr>elements :=
            Some (pre @ NoteElement i tx p col u now' # post)\<rparr>)\<rparr>)"
      using twice ch [of now'] by simp
    show ?thesis
      by (intro exI conjI) (rule split, rule pre, rule c1, rule c2)
  qed
  have absent: "currentDoc (updateNote now i tx s) = currentDoc s \<and>
      currentDoc (updateNote now' i tx (updateNote now i tx s)) = currentDoc s"
    if "\<forall>el\<in>set (doc_elements (Some d)). \<not> is_note i el"
    using that once twice assms(2) by (simp add: updateNote_change_no_match)
  show ?thesis
  proof (rule conjI)
    show "\<forall>es. elements c = Some es \<and> (\<exists>el\<in>set es. is_note i el) \<longrightarrow>
            (\<exists>pre old p col u t post.
               es = pre @ NoteElement i old p col u t # post \<and>
               (\<forall>el\<in>set pre. \<not> is_note i el) \<and>
               currentDoc (updateNote now i tx s) =
                 Some (d\<lparr>canvas := Some (c\<lparr>elements :=
                   Some (pre @ NoteElement i tx p col u now # post)\<rparr>)\<rparr>) \<and>
               currentDoc (updateNote now' i tx (updateNote now i tx s)) =
                 Some (d\<lparr>canvas := Some (c\<lparr>elements :=
                   Some (pre @ NoteElement i tx p col u now' # post)\<rparr>)\<rparr>))"
    proof (intro allI impI)
      fix es
      assume h: "elements c = Some es \<and> (\<exists>el\<in>set es. is_note i el)"
      from h have e1: "elements c = Some es" and e2: "\<exists>el\<in>set es. is_note i el"
        by simp_all
      from found [OF e1 e2] show "\<exists>pre old p col u t post.
               es = pre @ NoteElement i old p col u t # post \<and>
               (\<forall>el\<in>set pre. \<not> is_note i el) \<and>
               currentDoc (updateNote now i tx s) =
                 Some (d\<lparr>canvas := Some (c\<lparr>elements :=
                   Some (pre @ NoteElement i tx p col u now # post)\<rparr>)\<rparr>) \<and>
               currentDoc (updateNote now' i tx (updateNote now i tx s)) =
                 Some (d\<lparr>canvas := Some (c\<lparr>elements :=
                   Some (pre @ NoteElement i tx p col u now' # post)\<rparr>)\<rparr>)" .
    qed
    show "(\<forall>el\<in>set (doc_elements (Some d)). \<not> is_note i el) \<longrightarrow>
            currentDoc (updateNote now i tx s) = currentDoc s \<and>
            currentDoc (updateNote now' i tx (updateNote now i tx s)) = currentDoc s"
      using absent by (rule impI)
  qed
qed


theorem updateNote_sets_text_of_note_witness:
  "doc_elements (currentDoc (updateNote 21 ''n1'' ''x'' (updateNote 20 ''n1'' ''x'' notes_store))) =
     [StrokeElement ''n1'' [(0, 0)] ''#000000'' 3 ''u2'' 10,
      NoteElement ''n1'' ''x'' \<lparr>pos_x = 5, pos_y = 6\<rparr> ''#ffff88'' ''u2'' 21,
      NoteElement ''n2'' ''other'' \<lparr>pos_x = 7, pos_y = 8\<rparr> ''#ff7eb9'' ''u1'' 12]
   \<and> currentDoc (updateNote 20 ''zz'' ''x'' notes_store) = currentDoc notes_store"
proof -
  obtain d c es where d: "currentDoc notes_store = Some d" and c: "canvas d = Some c"
    and es: "elements c = Some es"
    and dv: "d = \<lparr>canvas = Some c\<rparr>"
    and cv: "c = \<lparr>elements = Some es, cursors = Some [], title = ''Untitled Sketch''\<rparr>"
    and esv: "es = [StrokeElement ''n1'' [(0, 0)] ''#000000'' 3 ''u2'' 10,
         NoteElement ''n1'' ''old'' \<lparr>pos_x = 5, pos_y = 6\<rparr> ''#ffff88'' ''u2'' 11,
         NoteElement ''n2'' ''other'' \<lparr>pos_x = 7, pos_y = 8\<rparr> ''#ff7eb9'' ''u1'' 12]"
    by (simp add: notes_store_def)
  have i: "initialized (doc notes_store)"
    by (simp add: notes_store_def initialized_def)
  have absent: "\<forall>el\<in>set (doc_elements (Some d)). \<not> is_note ''zz'' el"
    using dv cv esv by (simp add: doc_elements_def is_note_def)
  have noop: "currentDoc (updateNote 20 ''zz'' ''x'' notes_store) = currentDoc notes_store"
    using updateNote_sets_text_of_note [OF i d c, where i = "''zz''" and tx = "''x''"
        and now = 20 and now' = 21] absent by blast
  have ex: "\<exists>el\<in>set es. is_note ''n1'' el"
    using esv by (simp add: is_note_def)
  from updateNote_sets_text_of_note [OF i d c, where i = "''n1''" and tx = "''x''"
      and now = 20 and now' = 21] es ex
  obtain pre old p col u t post where
    split: "es = pre @ NoteElement ''n1'' old p col u t # post" and
    pre: "\<forall>el\<in>set pre. \<not> is_note ''n1'' el" and
    two: "currentDoc (updateNote 21 ''n1'' ''x'' (updateNote 20 ''n1'' ''x'' notes_store)) =
      Some (d\<lparr>canvas := Some (c\<lparr>elements :=
        Some (pre @ NoteElement ''n1'' ''x'' p col u 21 # post)\<rparr>)\<rparr>)"
    by blast
  have "pre = [StrokeElement ''n1'' [(0, 0)] ''#000000'' 3 ''u2'' 10]"
    using split pre esv
    by (auto simp: is_note_def append_eq_Cons_conv Cons_eq_append_conv)
  with split esv two have "doc_elements (currentDoc (updateNote 21 ''n1'' ''x''
      (updateNote 20 ''n1'' ''x'' notes_store))) =
     [StrokeElement ''n1'' [(0, 0)] ''#000000'' 3 ''u2'' 10,
      NoteElement ''n1'' ''x'' \<lparr>pos_x = 5, pos_y = 6\<rparr> ''#ffff88'' ''u2'' 21,
      NoteElement ''n2'' ''other'' \<lparr>pos_x = 7, pos_y = 8\<rparr> ''#ff7eb9'' ''u1'' 12]"
    by (simp add: doc_elements_def)
  with noop show ?thesis by simp
qed



text \<open>
  C7. In a document with a canvas, \<open>updateCursor\<close> sets the entry of the store's user id
  to the position \<open>(x, y)\<close> with \<open>lastActive\<close> the time of the call. The elements and the
  title stay, every other key has the entry it had, and a cursors object with one entry
  per key has one entry per key afterwards, exactly one of them for this user.
\<close>

theorem updateCursor_upserts_own_entry:
  assumes "initialized (doc s)" and "currentDoc s = Some d" and "canvas d = Some c"
    and "cs = (case cursors c of None \<Rightarrow> [] | Some old \<Rightarrow> old)"
    and "cs' = AList.update (userId s) \<lparr>position = \<lparr>pos_x = x, pos_y = y\<rparr>, lastActive = now\<rparr> cs"
  shows "currentDoc (updateCursor now x y s) = Some (d\<lparr>canvas := Some (c\<lparr>cursors := Some cs'\<rparr>)\<rparr>)
       \<and> elements (c\<lparr>cursors := Some cs'\<rparr>) = elements c
       \<and> title (c\<lparr>cursors := Some cs'\<rparr>) = title c
       \<and> map_of cs' (userId s) = Some \<lparr>position = \<lparr>pos_x = x, pos_y = y\<rparr>, lastActive = now\<rparr>
       \<and> (\<forall>u. u \<noteq> userId s \<longrightarrow> map_of cs' u = map_of cs u)
       \<and> (distinct (map fst cs) \<longrightarrow>
            distinct (map fst cs') \<and> length (filter (\<lambda>p. fst p = userId s) cs') = 1)"
proof -
  have "currentDoc (updateCursor now x y s) = Some (d\<lparr>canvas := Some (c\<lparr>cursors := Some cs'\<rparr>)\<rparr>)"
    using assms
    by (simp add: updateCursor_def change_and_send_Some updateCursor_change_def
        canvas_or_empty_def Let_def)
  moreover have "map_of cs' (userId s) = Some \<lparr>position = \<lparr>pos_x = x, pos_y = y\<rparr>, lastActive = now\<rparr>"
    using assms(5) by (simp add: update_conv')
  moreover have "\<forall>u. u \<noteq> userId s \<longrightarrow> map_of cs' u = map_of cs u"
    using assms(5) by (simp add: update_conv')
  moreover have "distinct (map fst cs) \<longrightarrow>
      distinct (map fst cs') \<and> length (filter (\<lambda>p. fst p = userId s) cs') = 1"
    using assms(5) by (simp add: distinct_update one_entry_update)
  ultimately show ?thesis by simp
qed

theorem updateCursor_upserts_own_entry_witness:
  "currentDoc (updateCursor 100500 7 8 presence_store) =
     Some \<lparr>canvas = Some \<lparr>elements = Some [], cursors = Some
        [(''me'', \<lparr>position = \<lparr>pos_x = 7, pos_y = 8\<rparr>, lastActive = 100500\<rparr>),
         (''a'', \<lparr>position = \<lparr>pos_x = 1, pos_y = 1\<rparr>, lastActive = 89000\<rparr>),
         (''b'', \<lparr>position = \<lparr>pos_x = 2, pos_y = 2\<rparr>, lastActive = 91000\<rparr>)],
        title = ''Untitled Sketch''\<rparr>\<rparr>"
proof -
  obtain d c where d: "currentDoc presence_store = Some d" and c: "canvas d = Some c"
    and dv: "d = \<lparr>canvas = Some c\<rparr>"
    and cv: "c = \<lparr>elements = Some [], cursors = Some
        [(''me'', \<lparr>position = \<lparr>pos_x = 0, pos_y = 0\<rparr>, lastActive = 100000\<rparr>),
         (''a'', \<lparr>position = \<lparr>pos_x = 1, pos_y = 1\<rparr>, lastActive = 89000\<rparr>),
         (''b'', \<lparr>position = \<lparr>pos_x = 2, pos_y = 2\<rparr>, lastActive = 91000\<rparr>)],
        title = ''Untitled Sketch''\<rparr>"
    by (simp add: presence_store_def)
  have i: "initialized (doc presence_store)"
    by (simp add: presence_store_def initialized_def)
  show ?thesis
    using updateCursor_upserts_own_entry [OF i d c refl refl, where x = 7 and y = 8
        and now = 100500] dv cv
    by (simp add: presence_store_def)
qed




text \<open>
  C10. When the document is absent or has no canvas at the moment a mutation operation is
  called, the operation returns at once: the whole store is as before, so the document
  is not modified, no canvas is added, nothing is sent, and no error leaves the
  operation.
\<close>

theorem mutation_guard_returns_unchanged:
  assumes "doc s = None \<or> (\<exists>d. doc s = Some d \<and> canvas d = None)"
  shows "perform now rnd m s = s"
proof -
  from assms have "\<not> initialized (doc s)"
    by (auto simp: initialized_def)
  then show ?thesis
    by (rule perform_guard)
qed

theorem mutation_guard_returns_unchanged_witness:
  "perform 5 ''0.abc'' (AddStroke [(1, 2)] ''#000000'' 3) degraded_store = degraded_store
   \<and> sent (perform 5 ''0.abc'' (UpdateTitle ''T'') degraded_store) = []"
proof -
  have h: "doc degraded_store = None \<or> (\<exists>d. doc degraded_store = Some d \<and> canvas d = None)"
    by (simp add: degraded_store_def)
  show ?thesis
    using mutation_guard_returns_unchanged [OF h] by (simp add: degraded_store_def)
qed

section \<open>Presence\<close>

text \<open>
  C5. The live cursors are a function of the cursors, the current user id and the time.
  No entry of the current user is live; no entry with \<open>lastActive = now - 11000\<close> is
  live; an entry of another user with \<open>lastActive = now - 9000\<close> is live; and the live
  entries are entries of the stored cursors, which the computation receives as an
  argument and does not give back: nothing is written, so no stored entry is removed.
  \<open>UserCursors\<close> renders exactly these entries.
\<close>

theorem live_cursors_filter:
  "(\<forall>c. (currentUserId, c) \<notin> set (activeCursors now currentUserId cs))
   \<and> (\<forall>u c. lastActive c = now - 11000 \<longrightarrow> (u, c) \<notin> set (activeCursors now currentUserId cs))
   \<and> (\<forall>u c. (u, c) \<in> set cs \<and> u \<noteq> currentUserId \<and> lastActive c = now - 9000
         \<longrightarrow> (u, c) \<in> set (activeCursors now currentUserId cs))
   \<and> set (activeCursors now currentUserId cs) \<subseteq> set cs
   \<and> (canvas d = Some c' \<and> cursors c' = Some cs
         \<longrightarrow> UserCursors currentUserId now (Some d) = Inr (Some (activeCursors now currentUserId cs)))"
  by (auto simp: activeCursors_def otherUserCursors_def UserCursors_def)

theorem live_cursors_filter_witness:
  "UserCursors ''me'' 100000 (doc presence_store) =
     Inr (Some [(''b'', \<lparr>position = \<lparr>pos_x = 2, pos_y = 2\<rparr>, lastActive = 91000\<rparr>)])"
proof -
  obtain d c cs where d: "doc presence_store = Some d" and c: "canvas d = Some c"
    and cs: "cursors c = Some cs"
    and csv: "cs = [(''me'', \<lparr>position = \<lparr>pos_x = 0, pos_y = 0\<rparr>, lastActive = 100000\<rparr>),
         (''a'', \<lparr>position = \<lparr>pos_x = 1, pos_y = 1\<rparr>, lastActive = 89000\<rparr>),
         (''b'', \<lparr>position = \<lparr>pos_x = 2, pos_y = 2\<rparr>, lastActive = 91000\<rparr>)]"
    by (simp add: presence_store_def)
  have "UserCursors ''me'' 100000 (Some d) = Inr (Some (activeCursors 100000 ''me'' cs))"
    using live_cursors_filter [of "''me''" 100000 cs d c] c cs by blast
  then show ?thesis
    using d csv by (simp add: activeCursors_def otherUserCursors_def)
qed

section \<open>Reconnection\<close>

text \<open>
  C9. A close with code 1000 schedules no timer. A close with any other code schedules
  exactly one timer, of 5000 milliseconds, after the timers already pending. Either way
  \<open>connected\<close> is cleared.
\<close>

theorem onclose_schedules_one_reconnect:
  "timers (onclose 1000 s) = timers s
   \<and> (code \<noteq> 1000 \<longrightarrow> timers (onclose code s) = timers s @ [5000])
   \<and> connected (onclose code s) = False"
  by (simp add: onclose_def Let_def)

theorem onclose_schedules_one_reconnect_witness:
  "timers (onclose 1000 presence_store) = [] \<and> timers (onclose 1006 presence_store) = [5000]
   \<and> connected (onclose 1006 presence_store) = False"
  using onclose_schedules_one_reconnect [of presence_store 1006]
  by (simp add: presence_store_def)

end
